theory Spec2Isabelle
  imports Main "HOL-Library.Option_ord" "HOL-Library.Multiset"
begin

section \<open>Pro Clubs Championship backend (server.js)\<close>

text \<open>
  A shallow embedding of the Express application of \<^verbatim>\<open>server.js\<close>: the
  application-level middleware (\<^verbatim>\<open>cors()\<close>, \<^verbatim>\<open>express.json()\<close>), the
  \<^verbatim>\<open>authenticateToken\<close> middleware, and the route handlers for clubs, players,
  standings, registration and login.

  The packages the file requires are not part of the repository. What the handlers use
  of them is written out here:
  \<^item> Mongoose collections are lists of documents in insertion order, a document being
    an identifier and a finite map from path names to JSON values;
  \<^item> the JSON Web Token and bcrypt primitives (serialising and signing a token,
    hashing and comparing a password) are parameters, collected in the record \<open>lib\<close>;
  \<^item> the clock is the one \<^verbatim>\<open>jsonwebtoken\<close> reads: whole seconds since the epoch;
  \<^item> values are taken as they arrive: Mongoose's conversion of a value to the declared
    type of its path, query operators inside a request body, and the textual form of an
    identifier are outside the model.
  The two routes that only forward (\<^verbatim>\<open>/api/discord/report-match\<close>,
  \<^verbatim>\<open>/api/ea/clubdetails\<close>) touch neither the store nor the tokens and are left out.
\<close>

subsection \<open>JSON values and JavaScript helpers\<close>

datatype json =
    JNull
  | JBool bool
  | JNum int
  | JStr string
  | JArr "json list"
  | JObj "(string \<times> json) list"

text \<open>A JSON object, a Mongoose document's paths: absent keys are \<^verbatim>\<open>undefined\<close>.\<close>

type_synonym fields = "string \<rightharpoonup> json"

text \<open>JavaScript truthiness of a value that may be \<^verbatim>\<open>undefined\<close>.\<close>

fun truthy :: "json option \<Rightarrow> bool" where
  "truthy None = False"
| "truthy (Some JNull) = False"
| "truthy (Some (JBool b)) = b"
| "truthy (Some (JNum n)) = (n \<noteq> 0)"
| "truthy (Some (JStr s)) = (s \<noteq> [])"
| "truthy (Some (JArr xs)) = True"
| "truthy (Some (JObj kvs)) = True"

text \<open>\<^verbatim>\<open>a || b\<close> with a defined right operand.\<close>

definition js_or :: "json option \<Rightarrow> json \<Rightarrow> json" where
  "js_or a b = (if truthy a then the a else b)"

text \<open>
  An object literal \<^verbatim>\<open>{ k1: v1, ..., kn: vn }\<close> as \<^verbatim>\<open>res.json\<close> sends it: a key
  whose value is \<^verbatim>\<open>undefined\<close> is not serialised.
\<close>

definition obj :: "(string \<times> json option) list \<Rightarrow> fields" where
  "obj kvs = foldl (\<lambda>m kv. m(fst kv := snd kv)) Map.empty kvs"

text \<open>
  \<^verbatim>\<open>String.prototype.split\<close> with a one-character separator: the pieces between
  the separators, empty pieces included; the empty string gives one empty piece.
\<close>

fun js_split :: "char \<Rightarrow> string \<Rightarrow> string list" where
  "js_split c [] = [[]]"
| "js_split c (x # xs) =
     (if x = c then [] # js_split c xs
      else (case js_split c xs of
              [] \<Rightarrow> [[x]]
            | w # ws \<Rightarrow> (x # w) # ws))"

text \<open>Indexing an array: \<^verbatim>\<open>undefined\<close> out of range.\<close>

definition js_index :: "'a list \<Rightarrow> nat \<Rightarrow> 'a option" where
  "js_index xs i = (if i < length xs then Some (xs ! i) else None)"

subsection \<open>Configuration\<close>

text \<open>\<^verbatim>\<open>process.env.JWT_SECRET || 'changeme'\<close>: an unset or empty variable gives the fallback.\<close>

definition JWT_SECRET :: "string option \<Rightarrow> string" where
  "JWT_SECRET env_var =
     (case env_var of
        None \<Rightarrow> ''changeme''
      | Some s \<Rightarrow> if s = [] then ''changeme'' else s)"

subsection \<open>Schemas, collections and the Mongoose operations the handlers call\<close>

datatype model = Club | Player | Standing | User

text \<open>The paths each schema declares (lines 37 to 62).\<close>

fun schema :: "model \<Rightarrow> string list" where
  "schema Club = [''name'', ''logo'', ''description'', ''stats'']"
| "schema Player = [''name'', ''club'', ''stats'']"
| "schema Standing =
     [''club'', ''points'', ''played'', ''won'', ''drawn'', ''lost'', ''gf'', ''ga'', ''gd'']"
| "schema User = [''email'', ''password'']"

type_synonym oid = nat

type_synonym document = "oid \<times> fields"

type_synonym collection = "document list"

record db =
  clubs :: collection
  players :: collection
  standings :: collection
  users :: collection
  next_id :: oid

fun coll :: "model \<Rightarrow> db \<Rightarrow> collection" where
  "coll Club s = clubs s"
| "coll Player s = players s"
| "coll Standing s = standings s"
| "coll User s = users s"

fun set_coll :: "model \<Rightarrow> collection \<Rightarrow> db \<Rightarrow> db" where
  "set_coll Club c s = s\<lparr>clubs := c\<rparr>"
| "set_coll Player c s = s\<lparr>players := c\<rparr>"
| "set_coll Standing c s = s\<lparr>standings := c\<rparr>"
| "set_coll User c s = s\<lparr>users := c\<rparr>"

text \<open>
  \<^verbatim>\<open>new Model(obj)\<close> and the update document of \<^verbatim>\<open>findByIdAndUpdate\<close>: schemas are
  strict, so only the declared paths are kept.
\<close>

definition cast :: "model \<Rightarrow> fields \<Rightarrow> fields" where
  "cast m payload = payload |` set (schema m)"

text \<open>
  Reading a property of a document (\<^verbatim>\<open>row.club\<close>, \<^verbatim>\<open>row.logo\<close>): a document has
  accessors for the paths of its schema only.
\<close>

definition doc_get :: "model \<Rightarrow> fields \<Rightarrow> string \<Rightarrow> json option" where
  "doc_get m d path = (if path \<in> set (schema m) then d path else None)"

text \<open>\<^verbatim>\<open>doc.save()\<close> of a new document: a fresh identifier, appended to the collection.\<close>

definition save :: "model \<Rightarrow> fields \<Rightarrow> db \<Rightarrow> document \<times> db" where
  "save m d s =
     (let doc = (next_id s, d)
      in (doc, (set_coll m (coll m s @ [doc]) s)\<lparr>next_id := Suc (next_id s)\<rparr>))"

text \<open>\<^verbatim>\<open>Model.findOne(filter)\<close>: the first document that matches, or \<^verbatim>\<open>null\<close>.\<close>

fun findOne :: "(fields \<Rightarrow> bool) \<Rightarrow> collection \<Rightarrow> document option" where
  "findOne f [] = None"
| "findOne f ((i, d) # c) = (if f d then Some (i, d) else findOne f c)"

text \<open>
  \<^verbatim>\<open>Model.findByIdAndUpdate(id, update, { new: true })\<close>: the paths of the update are
  set on the first document with that identifier and the document as updated is
  returned; \<^verbatim>\<open>null\<close>, and no change, when there is none.
\<close>

fun findByIdAndUpdate :: "oid \<Rightarrow> fields \<Rightarrow> collection \<Rightarrow> document option \<times> collection" where
  "findByIdAndUpdate i upd [] = (None, [])"
| "findByIdAndUpdate i upd ((j, d) # c) =
     (if j = i then (Some (j, d ++ upd), (j, d ++ upd) # c)
      else (case findByIdAndUpdate i upd c of (r, c') \<Rightarrow> (r, (j, d) # c')))"

text \<open>\<^verbatim>\<open>Model.findByIdAndDelete(id)\<close>: removes the first document with that identifier.\<close>

fun findByIdAndDelete :: "oid \<Rightarrow> collection \<Rightarrow> document option \<times> collection" where
  "findByIdAndDelete i [] = (None, [])"
| "findByIdAndDelete i ((j, d) # c) =
     (if j = i then (Some (j, d), c)
      else (case findByIdAndDelete i c of (r, c') \<Rightarrow> (r, (j, d) # c')))"

text \<open>
  \<^verbatim>\<open>Standing.find().sort({ points: -1 })\<close>. \<^verbatim>\<open>points\<close> is declared a Number, so
  what is stored there is a number, or nothing (the path absent, or null), and the sort
  key of a document is its number or \<open>None\<close>. Documents without a number sort below
  every number, hence last in descending order. Documents with equal keys keep their
  stored order.
\<close>

definition num_key :: "json option \<Rightarrow> int option" where
  "num_key v = (case v of Some (JNum n) \<Rightarrow> Some n | _ \<Rightarrow> None)"

definition sort_points_desc :: "collection \<Rightarrow> collection" where
  "sort_points_desc c =
     rev (sort_key (\<lambda>doc. num_key (doc_get Standing (snd doc) ''points'')) (rev c))"

subsection \<open>The token and password libraries\<close>

text \<open>
  The payload \<^verbatim>\<open>jwt.sign\<close> serialises: the two claims the login handler passes,
  and the registered claims \<^verbatim>\<open>iat\<close> and \<^verbatim>\<open>exp\<close> (seconds).
\<close>

record claims =
  p_email :: "json option"
  p_id :: oid
  p_iat :: nat
  p_exp :: "nat option"

text \<open>
  The primitives under \<^verbatim>\<open>jsonwebtoken\<close> and \<^verbatim>\<open>bcryptjs\<close>:
  \<^item> \<open>jws_sign payload secret\<close> is the compact serialisation, signed with the secret;
  \<^item> \<open>jws_decode token\<close> is the payload of a well-formed token, \<open>None\<close> otherwise;
  \<^item> \<open>jws_verify token secret\<close> holds when the signature is the one the secret gives;
  \<^item> \<open>bcrypt_hash password rounds salt\<close> is the hash string for a generated salt;
  \<^item> \<open>bcrypt_compare password hash\<close> holds when the password gives that hash.
\<close>

record lib =
  jws_sign :: "claims \<Rightarrow> string \<Rightarrow> string"
  jws_decode :: "string \<Rightarrow> claims option"
  jws_verify :: "string \<Rightarrow> string \<Rightarrow> bool"
  bcrypt_hash :: "string \<Rightarrow> nat \<Rightarrow> string \<Rightarrow> string"
  bcrypt_compare :: "string \<Rightarrow> string \<Rightarrow> bool"

datatype jwt_error = JsonWebTokenError string | TokenExpiredError

text \<open>
  \<^verbatim>\<open>jwt.sign(payload, secret, { expiresIn })\<close> at clock reading \<open>t\<close>:
  \<^verbatim>\<open>iat\<close> is the clock, \<^verbatim>\<open>exp\<close> is \<^verbatim>\<open>iat\<close> plus the span.
\<close>

definition jwt_sign :: "lib \<Rightarrow> json option \<Rightarrow> oid \<Rightarrow> string \<Rightarrow> nat \<Rightarrow> nat \<Rightarrow> string" where
  "jwt_sign L email uid secret expiresIn t =
     jws_sign L \<lparr>p_email = email, p_id = uid, p_iat = t, p_exp = Some (t + expiresIn)\<rparr> secret"

text \<open>The span \<^verbatim>\<open>'1d'\<close> in seconds.\<close>

definition one_day :: nat where
  "one_day = 24 * 60 * 60"

text \<open>
  \<^verbatim>\<open>jwt.verify(token, secret, callback)\<close> at clock reading \<open>t\<close>: the error the
  callback gets, or the decoded payload. A token is expired once the clock has reached
  its \<^verbatim>\<open>exp\<close>.
\<close>

definition jwt_verify :: "lib \<Rightarrow> string \<Rightarrow> string \<Rightarrow> nat \<Rightarrow> jwt_error + claims" where
  "jwt_verify L token secret t =
     (if token = [] then Inl (JsonWebTokenError ''jwt must be provided'')
      else (case jws_decode L token of
              None \<Rightarrow> Inl (JsonWebTokenError ''jwt malformed'')
            | Some payload \<Rightarrow>
                if \<not> jws_verify L token secret
                then Inl (JsonWebTokenError ''invalid signature'')
                else (case p_exp payload of
                        None \<Rightarrow> Inr payload
                      | Some e \<Rightarrow> if e \<le> t then Inl TokenExpiredError else Inr payload)))"

subsection \<open>Requests and replies\<close>

datatype resource = Clubs | Players | Standings

fun model_of :: "resource \<Rightarrow> model" where
  "model_of Clubs = Club"
| "model_of Players = Player"
| "model_of Standings = Standing"

text \<open>
  The routes of lines 69 to 96 and 133 to 199, by method and path:
  \<open>List r\<close> is \<^verbatim>\<open>GET /api/r\<close>, \<open>Create r\<close> is \<^verbatim>\<open>POST /api/r\<close>,
  \<open>Update r i\<close> is \<^verbatim>\<open>PUT /api/r/i\<close>, \<open>Delete r i\<close> is \<^verbatim>\<open>DELETE /api/r/i\<close>.
\<close>

datatype route =
    List resource
  | Create resource
  | Update resource oid
  | Delete resource oid
  | Register
  | Login

text \<open>
  The body as \<^verbatim>\<open>express.json()\<close> meets it: nothing for it to parse (no body, or a
  content type other than JSON), text that is not JSON, or a JSON object.
\<close>

datatype req_body = NoJson | BadJson | Json fields

record request =
  req_route :: route
  req_authorization :: "string option"
  req_body :: req_body

text \<open>What a request reads from outside: the clock, and the salt bcrypt generates.\<close>

record env =
  clock :: nat
  gen_salt :: string

datatype reply_body =
    Documents collection
  | Document "document option"
  | Rows "fields list"
  | Message string
  | Error string
  | Token string
  | Text string
  | Empty

text \<open>
  A handler is \<^verbatim>\<open>async\<close> and catches nothing: when a call it awaits rejects, no
  reply is sent.
\<close>

datatype reply = Reply nat reply_body | NoReply

fun status :: "reply \<Rightarrow> nat option" where
  "status (Reply st b) = Some st"
| "status NoReply = None"

subsection \<open>Middleware\<close>

text \<open>
  \<^verbatim>\<open>app.use(express.json())\<close> (line 13): reads and parses a JSON body and sets
  \<^verbatim>\<open>req.body\<close>; with nothing to parse \<^verbatim>\<open>req.body\<close> is the empty object; text
  that does not parse ends the request with status 400.
\<close>

fun express_json :: "req_body \<Rightarrow> fields option" where
  "express_json NoJson = Some Map.empty"
| "express_json BadJson = None"
| "express_json (Json b) = Some b"

text \<open>Lines 122 and 123: \<^verbatim>\<open>authHeader && authHeader.split(' ')[1]\<close>.\<close>

definition extract_token :: "string option \<Rightarrow> string option" where
  "extract_token authHeader =
     (case authHeader of
        None \<Rightarrow> None
      | Some h \<Rightarrow> if h = [] then Some [] else js_index (js_split (CHR '' '') h) 1)"

text \<open>
  \<^verbatim>\<open>authenticateToken\<close> (lines 121 to 130): the status it sends, or the user it
  attaches to the request before calling \<^verbatim>\<open>next()\<close>.
\<close>

definition authenticateToken :: "lib \<Rightarrow> string \<Rightarrow> nat \<Rightarrow> string option \<Rightarrow> nat + claims" where
  "authenticateToken L secret t authHeader =
     (case extract_token authHeader of
        None \<Rightarrow> Inl 401
      | Some token \<Rightarrow>
          if token = [] then Inl 401
          else (case jwt_verify L token secret t of
                  Inl err \<Rightarrow> Inl 403
                | Inr user \<Rightarrow> Inr user))"

subsection \<open>Route handlers\<close>

text \<open>The row \<^verbatim>\<open>GET /api/standings\<close> sends for a document (lines 83 to 94).\<close>

definition mapped :: "document \<Rightarrow> fields" where
  "mapped row =
     obj [(''club'', doc_get Standing (snd row) ''club''),
          (''logo'', Some (js_or (doc_get Standing (snd row) ''logo'') (JStr []))),
          (''p'', doc_get Standing (snd row) ''played''),
          (''w'', doc_get Standing (snd row) ''won''),
          (''d'', doc_get Standing (snd row) ''drawn''),
          (''l'', doc_get Standing (snd row) ''lost''),
          (''gf'', doc_get Standing (snd row) ''gf''),
          (''ga'', doc_get Standing (snd row) ''ga''),
          (''gd'', doc_get Standing (snd row) ''gd''),
          (''pts'', doc_get Standing (snd row) ''points'')]"

text \<open>
  \<^verbatim>\<open>POST /api/register\<close> (lines 133 to 139). bcrypt rejects a password that is
  not a string.
\<close>

definition register :: "lib \<Rightarrow> env \<Rightarrow> fields \<Rightarrow> db \<Rightarrow> reply \<times> db" where
  "register L e b s =
     (case b ''password'' of
        Some (JStr password) \<Rightarrow>
          (let hashed = bcrypt_hash L password 10 (gen_salt e);
               user = cast User (obj [(''email'', b ''email''), (''password'', Some (JStr hashed))])
           in (Reply 201 (Message ''User registered''), snd (save User user s)))
      | _ \<Rightarrow> (NoReply, s))"

text \<open>
  \<^verbatim>\<open>POST /api/login\<close> (lines 141 to 149). \<^verbatim>\<open>findOne({ email })\<close> takes the first
  user whose email is the one given; bcrypt rejects arguments that are not strings.
\<close>

definition login :: "lib \<Rightarrow> string \<Rightarrow> env \<Rightarrow> fields \<Rightarrow> db \<Rightarrow> reply \<times> db" where
  "login L secret e b s =
     (case findOne (\<lambda>d. doc_get User d ''email'' = b ''email'') (users s) of
        None \<Rightarrow> (Reply 400 (Error ''Invalid credentials''), s)
      | Some (uid, user) \<Rightarrow>
          (case (b ''password'', doc_get User user ''password'') of
             (Some (JStr password), Some (JStr hash)) \<Rightarrow>
               if \<not> bcrypt_compare L password hash
               then (Reply 400 (Error ''Invalid credentials''), s)
               else (Reply 200
                       (Token (jwt_sign L (doc_get User user ''email'') uid secret one_day (clock e))),
                     s)
           | _ \<Rightarrow> (NoReply, s)))"

text \<open>The handler of each route, given \<^verbatim>\<open>req.body\<close>.\<close>

fun handler :: "lib \<Rightarrow> string \<Rightarrow> env \<Rightarrow> route \<Rightarrow> fields \<Rightarrow> db \<Rightarrow> reply \<times> db" where
  "handler L secret e (List Standings) b s =
     (Reply 200 (Rows (map mapped (sort_points_desc (standings s)))), s)"
| "handler L secret e (List r) b s =
     (Reply 200 (Documents (coll (model_of r) s)), s)"
| "handler L secret e (Create r) b s =
     (case save (model_of r) (cast (model_of r) b) s of
        (doc, s') \<Rightarrow> (Reply 201 (Document (Some doc)), s'))"
| "handler L secret e (Update r i) b s =
     (case findByIdAndUpdate i (cast (model_of r) b) (coll (model_of r) s) of
        (doc, c') \<Rightarrow> (Reply 200 (Document doc), set_coll (model_of r) c' s))"
| "handler L secret e (Delete r i) b s =
     (case findByIdAndDelete i (coll (model_of r) s) of
        (doc, c') \<Rightarrow> (Reply 204 Empty, set_coll (model_of r) c' s))"
| "handler L secret e Register b s = register L e b s"
| "handler L secret e Login b s = login L secret e b s"

text \<open>The routes registered with \<^verbatim>\<open>authenticateToken\<close> before their handler.\<close>

fun guarded :: "route \<Rightarrow> bool" where
  "guarded (Create r) = True"
| "guarded (Update r i) = True"
| "guarded (Delete r i) = True"
| "guarded (List r) = False"
| "guarded Register = False"
| "guarded Login = False"

subsection \<open>The application\<close>

text \<open>What happened to a request, in order.\<close>

datatype event = BodyRead | TokenChecked | HandlerRan

record outcome =
  out_reply :: reply
  out_db :: db
  out_log :: "event list"

text \<open>
  One request through the stack, in the order of registration: \<^verbatim>\<open>cors()\<close> (a
  pass-through for these methods), \<^verbatim>\<open>express.json()\<close>, then the route with its
  own middleware.
\<close>

definition app :: "lib \<Rightarrow> string \<Rightarrow> env \<Rightarrow> request \<Rightarrow> db \<Rightarrow> outcome" where
  "app L secret e req s =
     (let parsed = (if req_body req = NoJson then [] else [BodyRead])
      in (case express_json (req_body req) of
            None \<Rightarrow> \<lparr>out_reply = Reply 400 (Text ''Bad Request''), out_db = s, out_log = parsed\<rparr>
          | Some b \<Rightarrow>
              if guarded (req_route req)
              then (case authenticateToken L secret (clock e) (req_authorization req) of
                      Inl st \<Rightarrow>
                        \<lparr>out_reply = Reply st (Text (if st = 401 then ''Unauthorized'' else ''Forbidden'')),
                         out_db = s, out_log = parsed @ [TokenChecked]\<rparr>
                    | Inr user \<Rightarrow>
                        (case handler L secret e (req_route req) b s of
                           (r, s') \<Rightarrow>
                             \<lparr>out_reply = r, out_db = s', out_log = parsed @ [TokenChecked, HandlerRan]\<rparr>))
              else (case handler L secret e (req_route req) b s of
                      (r, s') \<Rightarrow> \<lparr>out_reply = r, out_db = s', out_log = parsed @ [HandlerRan]\<rparr>)))"

text \<open>A sequence of requests, each with what it reads from outside.\<close>

fun run :: "lib \<Rightarrow> string \<Rightarrow> (env \<times> request) list \<Rightarrow> db \<Rightarrow> db" where
  "run L secret [] s = s"
| "run L secret ((e, req) # rs) s = run L secret rs (out_db (app L secret e req s))"

subsection \<open>Sample data\<close>

text \<open>The store at start-up, before any request.\<close>

definition empty_db :: db where
  "empty_db = \<lparr>clubs = [], players = [], standings = [], users = [], next_id = 0\<rparr>"

text \<open>
  An instance of the libraries small enough to evaluate: it knows one token, and its
  password hash keeps the salt in front of the password.
\<close>

definition sample_claims :: claims where
  "sample_claims =
     \<lparr>p_email = Some (JStr ''ana@fc.test''), p_id = 0, p_iat = 1000, p_exp = Some (1000 + one_day)\<rparr>"

definition sample_lib :: lib where
  "sample_lib =
     \<lparr>jws_sign = (\<lambda>payload k. ''aaa.bbb.ccc''),
      jws_decode = (\<lambda>tok. if tok = ''aaa.bbb.ccc'' then Some sample_claims else None),
      jws_verify = (\<lambda>tok k. tok = ''aaa.bbb.ccc'' \<and> k = ''changeme''),
      bcrypt_hash = (\<lambda>pw rounds salt. salt @ ''$'' @ pw),
      bcrypt_compare = (\<lambda>pw h. drop (length h - Suc (length pw)) h = CHR ''$'' # pw)\<rparr>"

definition sample_env :: env where
  "sample_env = \<lparr>clock = 1000, gen_salt = ''salt''\<rparr>"

definition sample_db :: db where
  "sample_db =
     \<lparr>clubs = [(0, [''name'' \<mapsto> JStr ''Red FC'', ''logo'' \<mapsto> JStr ''red.png'']),
               (1, [''name'' \<mapsto> JStr ''Blue FC''])],
      players = [],
      standings = [(2, [''club'' \<mapsto> JStr ''Red FC'', ''points'' \<mapsto> JNum 3, ''played'' \<mapsto> JNum 1]),
                   (3, [''club'' \<mapsto> JStr ''Blue FC'']),
                   (4, [''club'' \<mapsto> JStr ''Green FC'', ''points'' \<mapsto> JNum 7])],
      users = [],
      next_id = 5\<rparr>"

text \<open>The header a client sends with the sample token, and a clock one day later.\<close>

definition bearer :: "string option" where
  "bearer = Some ''Bearer aaa.bbb.ccc''"

definition late_env :: env where
  "late_env = \<lparr>clock = 1000 + one_day, gen_salt = ''salt''\<rparr>"

text \<open>Requests as a client would send them.\<close>

definition request :: "route \<Rightarrow> string option \<Rightarrow> req_body \<Rightarrow> request" where
  "request rt hdr b = \<lparr>req_route = rt, req_authorization = hdr, req_body = b\<rparr>"

definition credentials :: "string \<Rightarrow> string \<Rightarrow> fields" where
  "credentials email password = [''email'' \<mapsto> JStr email, ''password'' \<mapsto> JStr password]"


subsection \<open>Notions the properties are stated with\<close>

text \<open>The test \<^verbatim>\<open>!token\<close> of line 124, on the header of a request.\<close>

definition no_token :: "string option \<Rightarrow> bool" where
  "no_token authHeader = (case extract_token authHeader of None \<Rightarrow> True | Some token \<Rightarrow> token = [])"


text \<open>The rows of a reply, when it carries rows.\<close>

fun rows_of :: "reply \<Rightarrow> fields list" where
  "rows_of (Reply st (Rows rs)) = rs"
| "rows_of r = []"


section \<open>Properties\<close>

subsection \<open>Splitting the header\<close>

lemma js_split_no_sep: "c \<notin> set s \<Longrightarrow> js_split c s = [s]"
  by (induction s) auto

lemma js_split_first: "c \<notin> set s \<Longrightarrow> js_split c (s @ c # t) = s # js_split c t"
  by (induction s) auto

lemma extract_token_two_words:
  "CHR '' '' \<notin> set sch \<Longrightarrow> CHR '' '' \<notin> set tok \<Longrightarrow>
   extract_token (Some (sch @ CHR '' '' # tok)) = Some tok"
  by (simp add: extract_token_def js_split_first js_split_no_sep js_index_def)

lemma extract_token_one_word:
  "CHR '' '' \<notin> set h \<Longrightarrow> extract_token (Some h) = (if h = [] then Some [] else None)"
  by (simp add: extract_token_def js_split_no_sep js_index_def)

lemma jwt_verify_nonempty: "jwt_verify L tok secret t = Inr user \<Longrightarrow> tok \<noteq> []"
  by (auto simp: jwt_verify_def)

lemma sample_token_valid:
  "jwt_verify sample_lib ''aaa.bbb.ccc'' (JWT_SECRET None) 2000 = Inr sample_claims"
  by (simp add: jwt_verify_def sample_lib_def sample_claims_def JWT_SECRET_def one_day_def)

text \<open>
  C10. The scheme word of the Authorization header is not looked at: with any word
  free of spaces in front of a valid token, separated by one space, the request is
  authenticated as that token's user. A header that is one word without a space is
  answered 401, like a request without the header.
\<close>

theorem authenticateToken_ignores_scheme:
  "(CHR '' '' \<notin> set sch \<and> CHR '' '' \<notin> set tok \<and> jwt_verify L tok secret t = Inr user
      \<longrightarrow> authenticateToken L secret t (Some (sch @ '' '' @ tok)) = Inr user)
   \<and> (CHR '' '' \<notin> set h \<longrightarrow> authenticateToken L secret t (Some h) = Inl 401)"
  by (auto simp: authenticateToken_def extract_token_two_words extract_token_one_word
      dest: jwt_verify_nonempty)

theorem authenticateToken_ignores_scheme_witness:
  "CHR '' '' \<notin> set ''Basic'' \<and> CHR '' '' \<notin> set ''aaa.bbb.ccc''
   \<and> jwt_verify sample_lib ''aaa.bbb.ccc'' (JWT_SECRET None) 2000 = Inr sample_claims
   \<and> authenticateToken sample_lib (JWT_SECRET None) 2000 (Some ''Basic aaa.bbb.ccc'') = Inr sample_claims
   \<and> CHR '' '' \<notin> set ''aaa.bbb.ccc''
   \<and> authenticateToken sample_lib (JWT_SECRET None) 2000 (Some ''aaa.bbb.ccc'') = Inl 401"
  using authenticateToken_ignores_scheme
          [of "''Basic''" "''aaa.bbb.ccc''" sample_lib "JWT_SECRET None" 2000 sample_claims
              "''aaa.bbb.ccc''"]
        sample_token_valid
  by simp

subsection \<open>Collections\<close>







subsection \<open>One request through the application\<close>

lemma app_authenticated:
  "guarded (req_route req) \<Longrightarrow> express_json (req_body req) = Some b \<Longrightarrow>
   authenticateToken L secret (clock e) (req_authorization req) = Inr user \<Longrightarrow>
   out_reply (app L secret e req s) = fst (handler L secret e (req_route req) b s) \<and>
   out_db (app L secret e req s) = snd (handler L secret e (req_route req) b s)"
  by (simp add: app_def split: prod.splits)

lemma app_rejected:
  "guarded (req_route req) \<Longrightarrow> express_json (req_body req) = Some b \<Longrightarrow>
   authenticateToken L secret (clock e) (req_authorization req) = Inl st \<Longrightarrow>
   status (out_reply (app L secret e req s)) = Some st \<and>
   out_db (app L secret e req s) = s \<and>
   out_log (app L secret e req s) = (if req_body req = NoJson then [] else [BodyRead]) @ [TokenChecked]"
  by (simp add: app_def)

lemma app_open:
  "\<not> guarded (req_route req) \<Longrightarrow> express_json (req_body req) = Some b \<Longrightarrow>
   out_reply (app L secret e req s) = fst (handler L secret e (req_route req) b s) \<and>
   out_db (app L secret e req s) = snd (handler L secret e (req_route req) b s)"
  by (simp add: app_def split: prod.splits)

lemma app_bad_json:
  "req_body req = BadJson \<Longrightarrow>
   out_reply (app L secret e req s) = Reply 400 (Text ''Bad Request'') \<and>
   out_db (app L secret e req s) = s \<and> out_log (app L secret e req s) = [BodyRead]"
  by (simp add: app_def)

lemma app_list_header:
  "req_route req = List r \<Longrightarrow>
   app L secret e (req\<lparr>req_authorization := hdr\<rparr>) s = app L secret e req s"
  by (simp add: app_def Let_def split: option.splits)

lemma express_json_accepts: "b \<noteq> BadJson \<Longrightarrow> \<exists>p. express_json b = Some p"
  by (cases b) simp_all

lemma authenticateToken_no_token:
  "no_token hdr \<Longrightarrow> authenticateToken L secret t hdr = Inl 401"
  by (auto simp: authenticateToken_def no_token_def split: option.splits)

lemma jwt_verify_fails:
  "jws_decode L tok = None \<or> \<not> jws_verify L tok secret
     \<or> (\<exists>p ex. jws_decode L tok = Some p \<and> p_exp p = Some ex \<and> ex \<le> t)
   \<Longrightarrow> \<exists>err. jwt_verify L tok secret t = Inl err"
  by (auto simp: jwt_verify_def split: option.splits)

lemma authenticateToken_bad_token:
  "extract_token hdr = Some tok \<Longrightarrow> tok \<noteq> [] \<Longrightarrow> jwt_verify L tok secret t = Inl err \<Longrightarrow>
   authenticateToken L secret t hdr = Inl 403"
  by (simp add: authenticateToken_def)

lemma handler_guarded_status:
  "guarded rt \<Longrightarrow> status (fst (handler L secret e rt b s)) \<in> {Some 200, Some 201, Some 204}"
  by (cases rt) (auto split: prod.splits)

lemma handler_list_status:
  "status (fst (handler L secret e (List r) b s)) = Some 200 \<and> snd (handler L secret e (List r) b s) = s"
  by (cases r) auto

lemma sample_auth:
  "authenticateToken sample_lib (JWT_SECRET None) (clock sample_env) bearer = Inr sample_claims"
  by (simp add: authenticateToken_def extract_token_def js_index_def jwt_verify_def bearer_def
      sample_lib_def sample_claims_def sample_env_def JWT_SECRET_def one_day_def)

lemma sample_bearer_token: "extract_token bearer = Some ''aaa.bbb.ccc''"
  by (simp add: bearer_def extract_token_def js_index_def)

subsection \<open>Authentication in front of the resource routes\<close>

text \<open>
  C1, as the code has it. \<^verbatim>\<open>express.json()\<close> is registered for the whole application
  and runs first: a body that is not JSON is answered 400 before any token is looked at,
  and the store is untouched. Past it, on each of the nine routes that create, update
  or delete a club, a player or a standing, \<^verbatim>\<open>authenticateToken\<close> runs before the
  handler: without a token the status is 401, with a token that is malformed, wrongly
  signed or expired it is 403, and either way the store is unchanged; a handler of such
  a route runs only after the token was verified. The three listing routes answer 200
  whatever the Authorization header is.
\<close>

theorem token_checked_before_resource:
  "(req_body req = BadJson \<longrightarrow>
      status (out_reply (app L secret e req s)) = Some 400 \<and> out_db (app L secret e req s) = s)
   \<and> (guarded (req_route req) \<and> req_body req \<noteq> BadJson \<and> no_token (req_authorization req) \<longrightarrow>
      status (out_reply (app L secret e req s)) = Some 401 \<and> out_db (app L secret e req s) = s)
   \<and> (guarded (req_route req) \<and> req_body req \<noteq> BadJson
        \<and> extract_token (req_authorization req) = Some tok \<and> tok \<noteq> []
        \<and> (jws_decode L tok = None \<or> \<not> jws_verify L tok secret
            \<or> (\<exists>p ex. jws_decode L tok = Some p \<and> p_exp p = Some ex \<and> ex \<le> clock e)) \<longrightarrow>
      status (out_reply (app L secret e req s)) = Some 403 \<and> out_db (app L secret e req s) = s)
   \<and> (guarded (req_route req) \<and> HandlerRan \<in> set (out_log (app L secret e req s)) \<longrightarrow>
      (\<exists>user. authenticateToken L secret (clock e) (req_authorization req) = Inr user))
   \<and> (req_route req = List r \<and> req_body req \<noteq> BadJson \<longrightarrow>
      status (out_reply (app L secret e req s)) = Some 200 \<and> out_db (app L secret e req s) = s
      \<and> app L secret e (req\<lparr>req_authorization := hdr\<rparr>) s = app L secret e req s)"
proof (intro conjI impI)
  assume "req_body req = BadJson"
  then show "status (out_reply (app L secret e req s)) = Some 400"
    and "out_db (app L secret e req s) = s"
    by (simp_all add: app_bad_json)
next
  assume a: "guarded (req_route req) \<and> req_body req \<noteq> BadJson \<and> no_token (req_authorization req)"
  then obtain b where b: "express_json (req_body req) = Some b"
    using express_json_accepts by blast
  from a have "authenticateToken L secret (clock e) (req_authorization req) = Inl 401"
    by (simp add: authenticateToken_no_token)
  from app_rejected[OF _ b this, of s] a
  show "status (out_reply (app L secret e req s)) = Some 401"
    and "out_db (app L secret e req s) = s"
    by simp_all
next
  assume a: "guarded (req_route req) \<and> req_body req \<noteq> BadJson
        \<and> extract_token (req_authorization req) = Some tok \<and> tok \<noteq> []
        \<and> (jws_decode L tok = None \<or> \<not> jws_verify L tok secret
            \<or> (\<exists>p ex. jws_decode L tok = Some p \<and> p_exp p = Some ex \<and> ex \<le> clock e))"
  then obtain b where b: "express_json (req_body req) = Some b"
    using express_json_accepts by blast
  from a obtain err where "jwt_verify L tok secret (clock e) = Inl err"
    using jwt_verify_fails[of L tok secret "clock e"] by blast
  with a have "authenticateToken L secret (clock e) (req_authorization req) = Inl 403"
    by (simp add: authenticateToken_bad_token)
  from app_rejected[OF _ b this, of s] a
  show "status (out_reply (app L secret e req s)) = Some 403"
    and "out_db (app L secret e req s) = s"
    by simp_all
next
  assume "guarded (req_route req) \<and> HandlerRan \<in> set (out_log (app L secret e req s))"
  then show "\<exists>user. authenticateToken L secret (clock e) (req_authorization req) = Inr user"
    by (auto simp: app_def Let_def split: option.splits sum.splits if_splits prod.splits)
next
  assume a: "req_route req = List r \<and> req_body req \<noteq> BadJson"
  then obtain b where b: "express_json (req_body req) = Some b"
    using express_json_accepts by blast
  from a have g: "\<not> guarded (req_route req)" by simp
  from app_open[OF g b, of L secret e s] a handler_list_status[of L secret e r b s]
  show "status (out_reply (app L secret e req s)) = Some 200"
    and "out_db (app L secret e req s) = s"
    by simp_all
  from a show "app L secret e (req\<lparr>req_authorization := hdr\<rparr>) s = app L secret e req s"
    by (simp add: app_list_header)
qed

text \<open>
  The five parts of C1 at sample requests: a body that is not JSON (400), no header
  (401, store unchanged), the sample token one day after it was issued (403, store
  unchanged), the same token in time (the handler runs, and the token verifies), and
  a listing with and without the header (200, the same answer).
\<close>

theorem token_checked_before_resource_witness:
  "status (out_reply (app sample_lib (JWT_SECRET None) sample_env
      (request (Create Clubs) None BadJson) sample_db)) = Some 400
   \<and> guarded (Create Clubs) \<and> no_token None
   \<and> status (out_reply (app sample_lib (JWT_SECRET None) sample_env
      (request (Create Clubs) None NoJson) sample_db)) = Some 401
   \<and> out_db (app sample_lib (JWT_SECRET None) sample_env
      (request (Create Clubs) None NoJson) sample_db) = sample_db
   \<and> guarded (Delete Clubs 0) \<and> extract_token bearer = Some ''aaa.bbb.ccc''
   \<and> jws_decode sample_lib ''aaa.bbb.ccc'' = Some sample_claims
   \<and> p_exp sample_claims = Some (1000 + one_day) \<and> 1000 + one_day \<le> clock late_env
   \<and> status (out_reply (app sample_lib (JWT_SECRET None) late_env
      (request (Delete Clubs 0) bearer NoJson) sample_db)) = Some 403
   \<and> out_db (app sample_lib (JWT_SECRET None) late_env
      (request (Delete Clubs 0) bearer NoJson) sample_db) = sample_db
   \<and> HandlerRan \<in> set (out_log (app sample_lib (JWT_SECRET None) sample_env
      (request (Delete Clubs 0) bearer NoJson) sample_db))
   \<and> authenticateToken sample_lib (JWT_SECRET None) (clock sample_env) bearer = Inr sample_claims
   \<and> status (out_reply (app sample_lib (JWT_SECRET None) sample_env
      (request (List Clubs) None NoJson) sample_db)) = Some 200
   \<and> app sample_lib (JWT_SECRET None) sample_env (request (List Clubs) bearer NoJson) sample_db
      = app sample_lib (JWT_SECRET None) sample_env (request (List Clubs) None NoJson) sample_db"
proof -
  have dec: "jws_decode sample_lib ''aaa.bbb.ccc'' = Some sample_claims"
    by (simp add: sample_lib_def)
  have ex: "p_exp sample_claims = Some (1000 + one_day)" "1000 + one_day \<le> clock late_env"
    by (simp_all add: sample_claims_def late_env_def)
  have ran: "HandlerRan \<in> set (out_log (app sample_lib (JWT_SECRET None) sample_env
      (request (Delete Clubs 0) bearer NoJson) sample_db))"
    using sample_auth by (simp add: app_def request_def split: prod.splits)
  note a = token_checked_before_resource
      [of "request (Create Clubs) None BadJson" sample_lib "JWT_SECRET None" sample_env sample_db]
  note b = token_checked_before_resource
      [of "request (Create Clubs) None NoJson" sample_lib "JWT_SECRET None" sample_env sample_db]
  note c = token_checked_before_resource
      [of "request (Delete Clubs 0) bearer NoJson" sample_lib "JWT_SECRET None" late_env sample_db
          "''aaa.bbb.ccc''"]
  note d = token_checked_before_resource
      [of "request (Delete Clubs 0) bearer NoJson" sample_lib "JWT_SECRET None" sample_env sample_db]
  note f = token_checked_before_resource
      [of "request (List Clubs) None NoJson" sample_lib "JWT_SECRET None" sample_env sample_db
          _ Clubs bearer]
  have nt: "no_token None" by (simp add: no_token_def extract_token_def)
  from a have 1: "status (out_reply (app sample_lib (JWT_SECRET None) sample_env
      (request (Create Clubs) None BadJson) sample_db)) = Some 400"
    by (simp add: request_def)
  from b nt have 2: "status (out_reply (app sample_lib (JWT_SECRET None) sample_env
      (request (Create Clubs) None NoJson) sample_db)) = Some 401
   \<and> out_db (app sample_lib (JWT_SECRET None) sample_env
      (request (Create Clubs) None NoJson) sample_db) = sample_db"
    by (simp add: request_def)
  from c sample_bearer_token dec ex
  have 3: "status (out_reply (app sample_lib (JWT_SECRET None) late_env
      (request (Delete Clubs 0) bearer NoJson) sample_db)) = Some 403
   \<and> out_db (app sample_lib (JWT_SECRET None) late_env
      (request (Delete Clubs 0) bearer NoJson) sample_db) = sample_db"
    by (simp add: request_def)
  from d ran
  have 4: "\<exists>user. authenticateToken sample_lib (JWT_SECRET None) (clock sample_env) bearer = Inr user"
    by (simp add: request_def)
  from f have 5: "status (out_reply (app sample_lib (JWT_SECRET None) sample_env
      (request (List Clubs) None NoJson) sample_db)) = Some 200
   \<and> app sample_lib (JWT_SECRET None) sample_env (request (List Clubs) bearer NoJson) sample_db
      = app sample_lib (JWT_SECRET None) sample_env (request (List Clubs) None NoJson) sample_db"
    by (simp add: request_def)
  from 1 2 3 4 5 nt sample_bearer_token dec ex sample_auth ran show ?thesis by simp
qed

text \<open>
  Against C1 as the specification words it: \<^verbatim>\<open>POST /api/clubs\<close> without a token
  and with a body that is not JSON is answered 400, not 401.
\<close>

theorem bad_json_without_token_is_400:
  "guarded (req_route (request (Create Clubs) None BadJson))
   \<and> no_token (req_authorization (request (Create Clubs) None BadJson))
   \<and> status (out_reply (app sample_lib (JWT_SECRET None) sample_env
        (request (Create Clubs) None BadJson) sample_db)) = Some 400"
  by (simp add: request_def no_token_def extract_token_def app_def)

text \<open>
  C2, as the code has it. On a route behind \<^verbatim>\<open>authenticateToken\<close> the body of a
  request that has one is read first, once, by the application-level
  \<^verbatim>\<open>express.json()\<close>, before the token is checked; only a request with nothing to
  parse has no body read. When the answer is 401 or 403 the request went through
  exactly those two steps: its body was read if there was one, the token was checked,
  the handler did not run and the store is unchanged.
\<close>

theorem body_read_before_token_check:
  "guarded (req_route req) \<Longrightarrow>
   (req_body req \<noteq> NoJson \<longrightarrow>
      (\<exists>rest. out_log (app L secret e req s) = BodyRead # rest \<and> BodyRead \<notin> set rest))
   \<and> (req_body req = NoJson \<longrightarrow> BodyRead \<notin> set (out_log (app L secret e req s)))
   \<and> (status (out_reply (app L secret e req s)) = Some 401
        \<or> status (out_reply (app L secret e req s)) = Some 403 \<longrightarrow>
      out_log (app L secret e req s)
        = (if req_body req = NoJson then [] else [BodyRead]) @ [TokenChecked]
      \<and> out_db (app L secret e req s) = s)"
proof (intro conjI impI)
  assume "req_body req \<noteq> NoJson"
  then show "\<exists>rest. out_log (app L secret e req s) = BodyRead # rest \<and> BodyRead \<notin> set rest"
    by (auto simp: app_def Let_def split: option.splits sum.splits prod.splits)
next
  assume "req_body req = NoJson"
  then show "BodyRead \<notin> set (out_log (app L secret e req s))"
    by (auto simp: app_def Let_def split: option.splits sum.splits prod.splits)
next
  assume g: "guarded (req_route req)"
    and st: "status (out_reply (app L secret e req s)) = Some 401
        \<or> status (out_reply (app L secret e req s)) = Some 403"
  have "req_body req \<noteq> BadJson"
    using st by (auto simp: app_bad_json)
  then obtain b where b: "express_json (req_body req) = Some b"
    using express_json_accepts by blast
  have "\<exists>c. authenticateToken L secret (clock e) (req_authorization req) = Inl c"
  proof (cases "authenticateToken L secret (clock e) (req_authorization req)")
    case (Inl c)
    then show ?thesis by blast
  next
    case (Inr user)
    from app_authenticated[OF g b Inr, of s] handler_guarded_status[OF g, of L secret e b s] st
    show ?thesis by auto
  qed
  then obtain c where "authenticateToken L secret (clock e) (req_authorization req) = Inl c"
    by blast
  from app_rejected[OF g b this, of s]
  show "out_log (app L secret e req s)
        = (if req_body req = NoJson then [] else [BodyRead]) @ [TokenChecked]"
    and "out_db (app L secret e req s) = s"
    by simp_all
qed

text \<open>
  C2 at two requests without a token: with a JSON body the log is the body read, then
  the token check; without one it is the token check alone.
\<close>

theorem body_read_before_token_check_witness:
  "guarded (req_route (request (Create Clubs) None (Json [''name'' \<mapsto> JStr ''Red FC''])))
   \<and> req_body (request (Create Clubs) None (Json [''name'' \<mapsto> JStr ''Red FC''])) \<noteq> NoJson
   \<and> status (out_reply (app sample_lib (JWT_SECRET None) sample_env
        (request (Create Clubs) None (Json [''name'' \<mapsto> JStr ''Red FC''])) sample_db)) = Some 401
   \<and> out_log (app sample_lib (JWT_SECRET None) sample_env
        (request (Create Clubs) None (Json [''name'' \<mapsto> JStr ''Red FC''])) sample_db)
      = [BodyRead, TokenChecked]
   \<and> out_db (app sample_lib (JWT_SECRET None) sample_env
        (request (Create Clubs) None (Json [''name'' \<mapsto> JStr ''Red FC''])) sample_db) = sample_db
   \<and> req_body (request (Create Clubs) None NoJson) = NoJson
   \<and> BodyRead \<notin> set (out_log (app sample_lib (JWT_SECRET None) sample_env
        (request (Create Clubs) None NoJson) sample_db))"
proof -
  have st: "status (out_reply (app sample_lib (JWT_SECRET None) sample_env
        (request (Create Clubs) None (Json [''name'' \<mapsto> JStr ''Red FC''])) sample_db)) = Some 401"
    by (simp add: request_def app_def authenticateToken_def extract_token_def)
  note a = body_read_before_token_check
      [of "request (Create Clubs) None (Json [''name'' \<mapsto> JStr ''Red FC''])"
          sample_lib "JWT_SECRET None" sample_env sample_db]
  note b = body_read_before_token_check
      [of "request (Create Clubs) None NoJson" sample_lib "JWT_SECRET None" sample_env sample_db]
  from a st have 1: "out_log (app sample_lib (JWT_SECRET None) sample_env
        (request (Create Clubs) None (Json [''name'' \<mapsto> JStr ''Red FC''])) sample_db)
      = [BodyRead, TokenChecked]
   \<and> out_db (app sample_lib (JWT_SECRET None) sample_env
        (request (Create Clubs) None (Json [''name'' \<mapsto> JStr ''Red FC''])) sample_db) = sample_db"
    by (simp add: request_def)
  from b have 2: "BodyRead \<notin> set (out_log (app sample_lib (JWT_SECRET None) sample_env
        (request (Create Clubs) None NoJson) sample_db))"
    by (simp add: request_def)
  from st 1 2 show ?thesis by (simp add: request_def)
qed

text \<open>
  Against C2 as the specification words it: \<^verbatim>\<open>POST /api/clubs\<close> with a JSON body
  and no token is rejected with 401 after its body was read.
\<close>

theorem rejected_request_body_was_read:
  "guarded (req_route (request (Create Clubs) None (Json [''name'' \<mapsto> JStr ''Red FC''])))
   \<and> status (out_reply (app sample_lib (JWT_SECRET None) sample_env
        (request (Create Clubs) None (Json [''name'' \<mapsto> JStr ''Red FC''])) sample_db)) = Some 401
   \<and> out_log (app sample_lib (JWT_SECRET None) sample_env
        (request (Create Clubs) None (Json [''name'' \<mapsto> JStr ''Red FC''])) sample_db)
      = [BodyRead, TokenChecked]"
  by (simp add: request_def app_def authenticateToken_def extract_token_def)

subsection \<open>Update and delete\<close>







subsection \<open>The standings table\<close>

lemma doc_get_Standing:
  "doc_get Standing d ''club'' = d ''club''"
  "doc_get Standing d ''points'' = d ''points''"
  "doc_get Standing d ''played'' = d ''played''"
  "doc_get Standing d ''won'' = d ''won''"
  "doc_get Standing d ''drawn'' = d ''drawn''"
  "doc_get Standing d ''lost'' = d ''lost''"
  "doc_get Standing d ''gf'' = d ''gf''"
  "doc_get Standing d ''ga'' = d ''ga''"
  "doc_get Standing d ''gd'' = d ''gd''"
  "doc_get Standing d ''logo'' = None"
  by (simp_all add: doc_get_def)

lemma mapped_paths:
  "mapped row ''club'' = snd row ''club''"
  "mapped row ''logo'' = Some (JStr [])"
  "mapped row ''p'' = snd row ''played''"
  "mapped row ''w'' = snd row ''won''"
  "mapped row ''d'' = snd row ''drawn''"
  "mapped row ''l'' = snd row ''lost''"
  "mapped row ''gf'' = snd row ''gf''"
  "mapped row ''ga'' = snd row ''ga''"
  "mapped row ''gd'' = snd row ''gd''"
  "mapped row ''pts'' = snd row ''points''"
  by (simp_all add: mapped_def obj_def doc_get_Standing js_or_def)







lemma app_list_standings:
  "req_route req = List Standings \<Longrightarrow> req_body req \<noteq> BadJson \<Longrightarrow>
   out_reply (app L secret e req s) = Reply 200 (Rows (map mapped (sort_points_desc (standings s))))"
proof -
  assume a: "req_route req = List Standings" "req_body req \<noteq> BadJson"
  then obtain b where b: "express_json (req_body req) = Some b"
    using express_json_accepts by blast
  from a have g: "\<not> guarded (req_route req)" by simp
  from app_open[OF g b, of L secret e s] a show ?thesis by simp
qed

lemma sample_sorted:
  "sort_points_desc (standings sample_db)
   = [(4, [''club'' \<mapsto> JStr ''Green FC'', ''points'' \<mapsto> JNum 7]),
      (2, [''club'' \<mapsto> JStr ''Red FC'', ''points'' \<mapsto> JNum 3, ''played'' \<mapsto> JNum 1]),
      (3, [''club'' \<mapsto> JStr ''Blue FC''])]"
  by (simp add: sort_points_desc_def sample_db_def doc_get_def num_key_def)

lemma sample_listing:
  "out_reply (app sample_lib (JWT_SECRET None) sample_env (request (List Standings) None NoJson) sample_db)
   = Reply 200 (Rows (map mapped
       [(4, [''club'' \<mapsto> JStr ''Green FC'', ''points'' \<mapsto> JNum 7]),
        (2, [''club'' \<mapsto> JStr ''Red FC'', ''points'' \<mapsto> JNum 3, ''played'' \<mapsto> JNum 1]),
        (3, [''club'' \<mapsto> JStr ''Blue FC''])]))"
  using app_list_standings
          [of "request (List Standings) None NoJson" sample_lib "JWT_SECRET None" sample_env sample_db]
  by (simp add: request_def sample_sorted)







text \<open>
  C9. Every row \<^verbatim>\<open>GET /api/standings\<close> sends has the empty string as its logo,
  whatever the store holds: the schema of a standing declares no \<^verbatim>\<open>logo\<close>, so
  \<^verbatim>\<open>row.logo\<close> is undefined and the fallback of line 85 is taken.
\<close>

theorem standings_logo_always_empty:
  "req_route req = List Standings \<Longrightarrow>
   \<forall>row\<in>set (rows_of (out_reply (app L secret e req s))). row ''logo'' = Some (JStr [])"
proof (cases "req_body req = BadJson")
  case True
  then show ?thesis by (simp add: app_bad_json)
next
  case False
  assume "req_route req = List Standings"
  from app_list_standings[OF this False, of L secret e s] show ?thesis
    by (auto simp: mapped_paths)
qed

text \<open>C9 at the sample store: the three rows, each with the empty logo.\<close>

theorem standings_logo_always_empty_witness:
  "req_route (request (List Standings) None NoJson) = List Standings
   \<and> length (rows_of (out_reply (app sample_lib (JWT_SECRET None) sample_env
        (request (List Standings) None NoJson) sample_db))) = 3
   \<and> (rows_of (out_reply (app sample_lib (JWT_SECRET None) sample_env
        (request (List Standings) None NoJson) sample_db)) ! 0) ''logo'' = Some (JStr [])
   \<and> (rows_of (out_reply (app sample_lib (JWT_SECRET None) sample_env
        (request (List Standings) None NoJson) sample_db)) ! 1) ''logo'' = Some (JStr [])
   \<and> (rows_of (out_reply (app sample_lib (JWT_SECRET None) sample_env
        (request (List Standings) None NoJson) sample_db)) ! 2) ''logo'' = Some (JStr [])"
proof -
  let ?rows = "rows_of (out_reply (app sample_lib (JWT_SECRET None) sample_env
        (request (List Standings) None NoJson) sample_db))"
  have route: "req_route (request (List Standings) None NoJson) = List Standings"
    by (simp add: request_def)
  have len: "length ?rows = 3"
    by (simp add: sample_listing)
  then have "?rows ! 0 \<in> set ?rows" "?rows ! 1 \<in> set ?rows" "?rows ! 2 \<in> set ?rows"
    by simp_all
  with standings_logo_always_empty[OF route, of sample_lib "JWT_SECRET None" sample_env sample_db]
  have "(?rows ! 0) ''logo'' = Some (JStr [])" "(?rows ! 1) ''logo'' = Some (JStr [])"
    "(?rows ! 2) ''logo'' = Some (JStr [])"
    by blast+
  with route len show ?thesis by simp
qed

subsection \<open>Registration, login and the token\<close>

lemma findOne_append_Some: "findOne f c = Some x \<Longrightarrow> findOne f (c @ c') = Some x"
  by (induction c) (auto split: if_splits)

lemma findOne_append_None: "findOne f c = None \<Longrightarrow> findOne f (c @ c') = findOne f c'"
  by (induction c) (auto split: if_splits)

lemma user_doc_paths:
  "cast User (obj [(''email'', v), (''password'', Some (JStr h))]) ''email'' = v"
  "cast User (obj [(''email'', v), (''password'', Some (JStr h))]) ''password'' = Some (JStr h)"
  "dom (cast User (obj [(''email'', v), (''password'', Some (JStr h))])) \<subseteq> {''email'', ''password''}"
  by (auto simp: cast_def obj_def restrict_map_def split: if_splits)

lemma register_effect:
  "b ''password'' = Some (JStr pw) \<Longrightarrow>
   register L e b s =
     (Reply 201 (Message ''User registered''),
      s\<lparr>users := users s @
           [(next_id s,
             cast User (obj [(''email'', b ''email''),
                             (''password'', Some (JStr (bcrypt_hash L pw 10 (gen_salt e))))]))],
        next_id := Suc (next_id s)\<rparr>)"
  by (simp add: register_def save_def Let_def)

lemma users_register: "\<exists>extra. users (snd (register L e b s)) = users s @ extra"
  by (auto simp: register_def save_def Let_def split: option.splits json.splits)

lemma users_set_coll: "m \<noteq> User \<Longrightarrow> users (set_coll m c s) = users s"
  by (cases m) simp_all

lemma model_of_not_User: "model_of r \<noteq> User"
  by (cases r) simp_all

text \<open>No route removes or changes a user: the users after a request extend those before.\<close>

lemma users_handler: "\<exists>extra. users (snd (handler L secret e rt b s)) = users s @ extra"
proof (cases rt)
  case (List r)
  then show ?thesis by (cases r) simp_all
next
  case (Create r)
  then show ?thesis
    by (simp add: save_def Let_def users_set_coll model_of_not_User)
next
  case (Update r i)
  then show ?thesis
    by (simp add: users_set_coll model_of_not_User split: prod.splits)
next
  case (Delete r i)
  then show ?thesis
    by (simp add: users_set_coll model_of_not_User split: prod.splits)
next
  case Register
  then show ?thesis by (simp add: users_register)
next
  case Login
  then show ?thesis
    by (auto simp: login_def split: option.splits prod.splits json.splits)
qed

lemma users_app: "\<exists>extra. users (out_db (app L secret e req s)) = users s @ extra"
proof (cases "express_json (req_body req)")
  case None
  then show ?thesis by (simp add: app_def)
next
  case (Some b)
  obtain r s' where h: "handler L secret e (req_route req) b s = (r, s')"
    by (cases "handler L secret e (req_route req) b s")
  with users_handler[of L secret e "req_route req" b s]
  have "\<exists>extra. users s' = users s @ extra" by simp
  with Some h show ?thesis
    by (auto simp: app_def Let_def split: sum.splits)
qed

lemma users_run: "\<exists>extra. users (run L secret rs s) = users s @ extra"
proof (induction rs arbitrary: s)
  case Nil
  then show ?case by simp
next
  case (Cons a rs)
  obtain e req where a: "a = (e, req)" by (cases a)
  from users_app[of L secret e req s] obtain x where
    x: "users (out_db (app L secret e req s)) = users s @ x" by blast
  from Cons.IH[of "out_db (app L secret e req s)"] obtain y where
    "users (run L secret rs (out_db (app L secret e req s))) = users (out_db (app L secret e req s)) @ y"
    by blast
  with x a show ?case by simp
qed

lemma jwt_verify_issued:
  "tok \<noteq> [] \<Longrightarrow> jws_decode L tok = Some payload \<Longrightarrow> jws_verify L tok secret \<Longrightarrow>
   p_exp payload = Some ex \<Longrightarrow>
   jwt_verify L tok secret t = (if t < ex then Inr payload else Inl TokenExpiredError)"
  by (simp add: jwt_verify_def)

lemma sample_register_twice:
  "users (run sample_lib (JWT_SECRET None)
     [(sample_env, request Register None (Json (credentials ''ana@fc.test'' ''first''))),
      (sample_env, request Register None (Json (credentials ''ana@fc.test'' ''second'')))]
     empty_db)
   = [(0, cast User (obj [(''email'', Some (JStr ''ana@fc.test'')),
                          (''password'', Some (JStr ''salt$first''))])),
      (1, cast User (obj [(''email'', Some (JStr ''ana@fc.test'')),
                          (''password'', Some (JStr ''salt$second''))]))]"
  by (simp add: app_def request_def credentials_def register_effect empty_db_def
      sample_lib_def sample_env_def)

text \<open>
  C3, as the code has it. Take a store in which no account has the email, a
  registration with that email and a password, any requests after it, and then a login
  with the same email and password. Given that bcrypt accepts the password against the
  hash it made of it, and that the token signed at login is non-empty, decodes to its
  payload and verifies under the secret, the login is answered 200 with that token;
  its payload names the account and expires one day (86400 seconds) after the login;
  \<^verbatim>\<open>jwt.verify\<close> accepts the token at every clock reading before the expiry and
  rejects it as expired at the expiry and at every reading after.
\<close>

theorem first_registration_logs_in:
  assumes fresh: "findOne (\<lambda>d. doc_get User d ''email'' = Some (JStr em)) (users s) = None"
    and reg: "req_route rq = Register" "req_body rq = Json b"
      "b ''email'' = Some (JStr em)" "b ''password'' = Some (JStr pw)"
    and lg: "req_route lq = Login" "req_body lq = Json b'"
      "b' ''email'' = Some (JStr em)" "b' ''password'' = Some (JStr pw)"
    and bc: "bcrypt_compare L pw (bcrypt_hash L pw 10 (gen_salt e1))"
    and payload: "payload = \<lparr>p_email = Some (JStr em), p_id = next_id s, p_iat = clock e2,
                            p_exp = Some (clock e2 + one_day)\<rparr>"
    and jws: "jws_sign L payload secret \<noteq> []"
      "jws_decode L (jws_sign L payload secret) = Some payload"
      "jws_verify L (jws_sign L payload secret) secret"
  shows "out_reply (app L secret e2 lq (run L secret ((e1, rq) # between) s))
           = Reply 200 (Token (jws_sign L payload secret))
     \<and> one_day = 86400
     \<and> (\<forall>t. t < clock e2 + one_day \<longrightarrow> jwt_verify L (jws_sign L payload secret) secret t = Inr payload)
     \<and> (\<forall>t. clock e2 + one_day \<le> t \<longrightarrow>
           jwt_verify L (jws_sign L payload secret) secret t = Inl TokenExpiredError)"
proof -
  let ?h = "bcrypt_hash L pw 10 (gen_salt e1)"
  let ?doc = "cast User (obj [(''email'', b ''email''), (''password'', Some (JStr ?h))])"
  let ?s1 = "out_db (app L secret e1 rq s)"
  let ?s2 = "run L secret ((e1, rq) # between) s"
  let ?f = "\<lambda>d. doc_get User d ''email'' = Some (JStr em)"
  have "\<not> guarded (req_route rq)" "express_json (req_body rq) = Some b"
    using reg by simp_all
  from app_open[OF this, of L secret e1 s] reg
  have "users ?s1 = users s @ [(next_id s, ?doc)]"
    by (simp add: register_effect)
  moreover have "?f ?doc"
    using reg by (simp add: doc_get_def user_doc_paths)
  ultimately have "findOne ?f (users ?s1) = Some (next_id s, ?doc)"
    using fresh by (simp add: findOne_append_None)
  moreover obtain extra where "users ?s2 = users ?s1 @ extra"
    using users_run[of L secret between ?s1] by auto
  ultimately have found: "findOne ?f (users ?s2) = Some (next_id s, ?doc)"
    by (simp add: findOne_append_Some)
  have "\<not> guarded (req_route lq)" "express_json (req_body lq) = Some b'"
    using lg by simp_all
  from app_open[OF this, of L secret e2 ?s2] lg found bc reg payload
  have "out_reply (app L secret e2 lq ?s2) = Reply 200 (Token (jws_sign L payload secret))"
    by (simp add: login_def doc_get_def user_doc_paths jwt_sign_def)
  moreover have "jwt_verify L (jws_sign L payload secret) secret t
      = (if t < clock e2 + one_day then Inr payload else Inl TokenExpiredError)" for t
    using jws payload by (simp add: jwt_verify_issued)
  ultimately show ?thesis by (simp add: one_day_def)
qed

text \<open>
  C3 at the sample data: the first registration of an email on the empty store,
  another registration of the same email after it, then the login; the token is
  accepted at clock 2000 and rejected one day after the login.
\<close>

theorem first_registration_logs_in_witness:
  "findOne (\<lambda>d. doc_get User d ''email'' = Some (JStr ''ana@fc.test'')) (users empty_db) = None
   \<and> bcrypt_compare sample_lib ''first'' (bcrypt_hash sample_lib ''first'' 10 (gen_salt sample_env))
   \<and> jws_sign sample_lib sample_claims (JWT_SECRET None) = ''aaa.bbb.ccc''
   \<and> jws_decode sample_lib ''aaa.bbb.ccc'' = Some sample_claims
   \<and> jws_verify sample_lib ''aaa.bbb.ccc'' (JWT_SECRET None)
   \<and> out_reply (app sample_lib (JWT_SECRET None) sample_env
        (request Login None (Json (credentials ''ana@fc.test'' ''first'')))
        (run sample_lib (JWT_SECRET None)
           [(sample_env, request Register None (Json (credentials ''ana@fc.test'' ''first''))),
            (sample_env, request Register None (Json (credentials ''ana@fc.test'' ''second'')))]
           empty_db))
      = Reply 200 (Token ''aaa.bbb.ccc'')
   \<and> 2000 < clock sample_env + one_day
   \<and> jwt_verify sample_lib ''aaa.bbb.ccc'' (JWT_SECRET None) 2000 = Inr sample_claims
   \<and> clock sample_env + one_day \<le> 1000 + one_day
   \<and> jwt_verify sample_lib ''aaa.bbb.ccc'' (JWT_SECRET None) (1000 + one_day) = Inl TokenExpiredError"
proof -
  let ?rq = "request Register None (Json (credentials ''ana@fc.test'' ''first''))"
  let ?lq = "request Login None (Json (credentials ''ana@fc.test'' ''first''))"
  let ?between = "[(sample_env, request Register None (Json (credentials ''ana@fc.test'' ''second'')))]"
  have fresh: "findOne (\<lambda>d. doc_get User d ''email'' = Some (JStr ''ana@fc.test''))
      (users empty_db) = None"
    by (simp add: empty_db_def)
  have reg: "req_route ?rq = Register" "req_body ?rq = Json (credentials ''ana@fc.test'' ''first'')"
    and lg: "req_route ?lq = Login" "req_body ?lq = Json (credentials ''ana@fc.test'' ''first'')"
    and cr: "credentials ''ana@fc.test'' ''first'' ''email'' = Some (JStr ''ana@fc.test'')"
      "credentials ''ana@fc.test'' ''first'' ''password'' = Some (JStr ''first'')"
    by (simp_all add: request_def credentials_def)
  have bc: "bcrypt_compare sample_lib ''first'' (bcrypt_hash sample_lib ''first'' 10 (gen_salt sample_env))"
    by (simp add: sample_lib_def sample_env_def)
  have payload: "sample_claims = \<lparr>p_email = Some (JStr ''ana@fc.test''), p_id = next_id empty_db,
      p_iat = clock sample_env, p_exp = Some (clock sample_env + one_day)\<rparr>"
    by (simp add: sample_claims_def empty_db_def sample_env_def)
  have sg: "jws_sign sample_lib sample_claims (JWT_SECRET None) = ''aaa.bbb.ccc''"
    by (simp add: sample_lib_def)
  have jws: "jws_sign sample_lib sample_claims (JWT_SECRET None) \<noteq> []"
    "jws_decode sample_lib (jws_sign sample_lib sample_claims (JWT_SECRET None)) = Some sample_claims"
    "jws_verify sample_lib (jws_sign sample_lib sample_claims (JWT_SECRET None)) (JWT_SECRET None)"
    by (simp_all add: sample_lib_def JWT_SECRET_def)
  note t = first_registration_logs_in
      [OF fresh reg cr lg cr bc payload jws, where between = ?between]
  have ck: "2000 < clock sample_env + one_day" "clock sample_env + one_day \<le> 1000 + one_day"
    by (simp_all add: sample_env_def one_day_def)
  from t ck have
    "out_reply (app sample_lib (JWT_SECRET None) sample_env ?lq
        (run sample_lib (JWT_SECRET None) ((sample_env, ?rq) # ?between) empty_db))
      = Reply 200 (Token ''aaa.bbb.ccc'')"
    "jwt_verify sample_lib ''aaa.bbb.ccc'' (JWT_SECRET None) 2000 = Inr sample_claims"
    "jwt_verify sample_lib ''aaa.bbb.ccc'' (JWT_SECRET None) (1000 + one_day) = Inl TokenExpiredError"
    unfolding sg by blast+
  with fresh bc sg jws ck show ?thesis unfolding sg by blast
qed

text \<open>
  Against C3 as the specification words it: an email registered twice, with two
  passwords. The user created by the second registration logs in with the email
  and the password of that registration, which bcrypt accepts against its hash, and
  is answered 400: the login looks at the first account with the email only.
\<close>

theorem second_registration_cannot_log_in:
  "bcrypt_compare sample_lib ''second'' (bcrypt_hash sample_lib ''second'' 10 (gen_salt sample_env))
   \<and> out_reply (app sample_lib (JWT_SECRET None) sample_env
        (request Login None (Json (credentials ''ana@fc.test'' ''second'')))
        (run sample_lib (JWT_SECRET None)
           [(sample_env, request Register None (Json (credentials ''ana@fc.test'' ''first''))),
            (sample_env, request Register None (Json (credentials ''ana@fc.test'' ''second'')))]
           empty_db))
      = Reply 400 (Error ''Invalid credentials'')"
proof -
  have "bcrypt_compare sample_lib ''second'' (bcrypt_hash sample_lib ''second'' 10 (gen_salt sample_env))"
    by (simp add: sample_lib_def sample_env_def)
  moreover have "out_reply (app sample_lib (JWT_SECRET None) sample_env
        (request Login None (Json (credentials ''ana@fc.test'' ''second'')))
        (run sample_lib (JWT_SECRET None)
           [(sample_env, request Register None (Json (credentials ''ana@fc.test'' ''first''))),
            (sample_env, request Register None (Json (credentials ''ana@fc.test'' ''second'')))]
           empty_db))
      = Reply 400 (Error ''Invalid credentials'')"
  proof -
    let ?s2 = "run sample_lib (JWT_SECRET None)
           [(sample_env, request Register None (Json (credentials ''ana@fc.test'' ''first''))),
            (sample_env, request Register None (Json (credentials ''ana@fc.test'' ''second'')))]
           empty_db"
    let ?lq = "request Login None (Json (credentials ''ana@fc.test'' ''second''))"
    have "\<not> guarded (req_route ?lq)"
      "express_json (req_body ?lq) = Some (credentials ''ana@fc.test'' ''second'')"
      by (simp_all add: request_def)
    from app_open[OF this, of sample_lib "JWT_SECRET None" sample_env ?s2]
    have "out_reply (app sample_lib (JWT_SECRET None) sample_env ?lq ?s2)
        = fst (login sample_lib (JWT_SECRET None) sample_env (credentials ''ana@fc.test'' ''second'') ?s2)"
      by (simp add: request_def)
    also have "\<dots> = Reply 400 (Error ''Invalid credentials'')"
      unfolding login_def sample_register_twice
      by (simp add: credentials_def doc_get_def user_doc_paths sample_lib_def)
    finally show ?thesis .
  qed
  ultimately show ?thesis by simp
qed

text \<open>
  C8. \<^verbatim>\<open>POST /api/register\<close> with a password, on any store: the reply is 201; one
  user is appended, under a fresh identifier, with the email of the request and, as
  its password, the bcrypt hash of the password with cost 10 and a generated salt, and
  nothing else; nothing is looked up before, so the number of accounts with that email
  grows by one whatever it was.
\<close>

theorem register_appends_hashed_user:
  "req_route req = Register \<Longrightarrow> req_body req = Json b \<Longrightarrow> b ''password'' = Some (JStr pw) \<Longrightarrow>
   \<exists>doc.
     out_reply (app L secret e req s) = Reply 201 (Message ''User registered'')
     \<and> out_db (app L secret e req s)
         = s\<lparr>users := users s @ [(next_id s, doc)], next_id := Suc (next_id s)\<rparr>
     \<and> doc ''email'' = b ''email''
     \<and> doc ''password'' = Some (JStr (bcrypt_hash L pw 10 (gen_salt e)))
     \<and> dom doc \<subseteq> {''email'', ''password''}
     \<and> length (filter (\<lambda>u. snd u ''email'' = b ''email'') (users (out_db (app L secret e req s))))
         = Suc (length (filter (\<lambda>u. snd u ''email'' = b ''email'') (users s)))"
proof -
  assume a: "req_route req = Register" "req_body req = Json b" "b ''password'' = Some (JStr pw)"
  let ?doc = "cast User (obj [(''email'', b ''email''),
                             (''password'', Some (JStr (bcrypt_hash L pw 10 (gen_salt e))))])"
  have "\<not> guarded (req_route req)" "express_json (req_body req) = Some b"
    using a by simp_all
  from app_open[OF this, of L secret e s] a
  have "out_reply (app L secret e req s) = Reply 201 (Message ''User registered'')"
    and "out_db (app L secret e req s)
         = s\<lparr>users := users s @ [(next_id s, ?doc)], next_id := Suc (next_id s)\<rparr>"
    by (simp_all add: register_effect)
  then show ?thesis
    using user_doc_paths[of "b ''email''" "bcrypt_hash L pw 10 (gen_salt e)"]
    by (intro exI[of _ ?doc]) simp
qed

text \<open>
  C8 at the sample data: the same email registered a second time, on the store the
  first registration left. The reply is 201 again and there are two accounts with
  the email.
\<close>

theorem register_appends_hashed_user_witness:
  "req_route (request Register None (Json (credentials ''ana@fc.test'' ''second''))) = Register
   \<and> credentials ''ana@fc.test'' ''second'' ''password'' = Some (JStr ''second'')
   \<and> length (filter (\<lambda>u. snd u ''email'' = Some (JStr ''ana@fc.test''))
        (users (out_db (app sample_lib (JWT_SECRET None) sample_env
           (request Register None (Json (credentials ''ana@fc.test'' ''first''))) empty_db)))) = 1
   \<and> out_reply (app sample_lib (JWT_SECRET None) sample_env
        (request Register None (Json (credentials ''ana@fc.test'' ''second'')))
        (out_db (app sample_lib (JWT_SECRET None) sample_env
           (request Register None (Json (credentials ''ana@fc.test'' ''first''))) empty_db)))
      = Reply 201 (Message ''User registered'')
   \<and> length (filter (\<lambda>u. snd u ''email'' = Some (JStr ''ana@fc.test''))
        (users (out_db (app sample_lib (JWT_SECRET None) sample_env
           (request Register None (Json (credentials ''ana@fc.test'' ''second'')))
           (out_db (app sample_lib (JWT_SECRET None) sample_env
              (request Register None (Json (credentials ''ana@fc.test'' ''first''))) empty_db))))))
      = 2"
proof -
  let ?r1 = "request Register None (Json (credentials ''ana@fc.test'' ''first''))"
  let ?r2 = "request Register None (Json (credentials ''ana@fc.test'' ''second''))"
  let ?s1 = "out_db (app sample_lib (JWT_SECRET None) sample_env ?r1 empty_db)"
  have h1: "req_route ?r1 = Register" "req_body ?r1 = Json (credentials ''ana@fc.test'' ''first'')"
    "credentials ''ana@fc.test'' ''first'' ''password'' = Some (JStr ''first'')"
    and h2: "req_route ?r2 = Register" "req_body ?r2 = Json (credentials ''ana@fc.test'' ''second'')"
    "credentials ''ana@fc.test'' ''second'' ''password'' = Some (JStr ''second'')"
    and em: "credentials ''ana@fc.test'' ''first'' ''email'' = Some (JStr ''ana@fc.test'')"
      "credentials ''ana@fc.test'' ''second'' ''email'' = Some (JStr ''ana@fc.test'')"
    by (simp_all add: request_def credentials_def)
  from register_appends_hashed_user[OF h1, of sample_lib "JWT_SECRET None" sample_env empty_db]
  have one: "length (filter (\<lambda>u. snd u ''email'' = Some (JStr ''ana@fc.test'')) (users ?s1)) = 1"
    unfolding em by (auto simp: empty_db_def)
  from register_appends_hashed_user[OF h2, of sample_lib "JWT_SECRET None" sample_env ?s1]
  have "out_reply (app sample_lib (JWT_SECRET None) sample_env ?r2 ?s1)
          = Reply 201 (Message ''User registered'')"
    and "length (filter (\<lambda>u. snd u ''email'' = Some (JStr ''ana@fc.test''))
           (users (out_db (app sample_lib (JWT_SECRET None) sample_env ?r2 ?s1))))
         = Suc (length (filter (\<lambda>u. snd u ''email'' = Some (JStr ''ana@fc.test'')) (users ?s1)))"
    unfolding em by blast+
  with one h2 show ?thesis by simp
qed

end
